theory Spec2Isabelle
  imports Complex_Main
begin

section \<open>Strings\<close>

text \<open>
  Source strings are modelled as \<^typ>\<open>string\<close> (lists of 8-bit characters), so the
  development covers ASCII text: \<open>toLowerCase\<close> and \<open>toUpperCase\<close> map the
  26 Latin letters and leave every other character alone.
  An optional field (\<open>field?: T\<close>) is an \<^typ>\<open>'a option\<close>, with \<open>None\<close> for
  \<open>undefined\<close>.
\<close>

definition upper_letters :: string where
  "upper_letters = ''ABCDEFGHIJKLMNOPQRSTUVWXYZ''"

definition lower_letters :: string where
  "lower_letters = ''abcdefghijklmnopqrstuvwxyz''"

definition lower_char :: "char \<Rightarrow> char" where
  "lower_char c = (case map_of (zip upper_letters lower_letters) c of Some d \<Rightarrow> d | None \<Rightarrow> c)"

definition upper_char :: "char \<Rightarrow> char" where
  "upper_char c = (case map_of (zip lower_letters upper_letters) c of Some d \<Rightarrow> d | None \<Rightarrow> c)"

definition toLowerCase :: "string \<Rightarrow> string" where
  "toLowerCase s = map lower_char s"

definition toUpperCase :: "string \<Rightarrow> string" where
  "toUpperCase s = map upper_char s"

text \<open>\<open>s.startsWith(p)\<close> and \<open>s.includes(p)\<close>: prefix and substring tests.\<close>

fun startsWith :: "string \<Rightarrow> string \<Rightarrow> bool" where
  "startsWith s [] = True"
| "startsWith [] (p # ps) = False"
| "startsWith (c # cs) (p # ps) = (c = p \<and> startsWith cs ps)"

fun str_includes :: "string \<Rightarrow> string \<Rightarrow> bool" where
  "str_includes [] p = (p = [])"
| "str_includes (c # cs) p = (startsWith (c # cs) p \<or> str_includes cs p)"

text \<open>\<open>parts.join(sep)\<close>.\<close>

fun join :: "string \<Rightarrow> string list \<Rightarrow> string" where
  "join sep [] = []"
| "join sep [x] = x"
| "join sep (x # y # ys) = x @ sep @ join sep (y # ys)"

section \<open>Data model (types.ts)\<close>

datatype ToolRisk = Safe | Caution | Destructive | Excluded

datatype StrategyKind = Testid | Mcp | Label | Role | Css

record SelectorStrategy =
  strategy :: StrategyKind
  sel_value :: string
  score :: real

record StateBinding =
  variable :: string
  setter :: "string option"
  accessPath :: "string option"

record AccessibilityHints =
  ariaLabel :: "string option"
  ariaDescribedBy :: "string option"
  role :: "string option"

record UIElement =
  tag :: string
  el_id :: "string option"
  el_name :: "string option"
  label :: "string option"
  inputType :: "string option"
  attributes :: "string \<rightharpoonup> string"
  stateBinding :: "StateBinding option"
  validation :: "string list option"
  accessibilityHints :: "AccessibilityHints option"
  parentFormId :: "string option"
  selectorFallback :: "SelectorStrategy list option"

record ApiCall =
  http_method :: string
  url :: string

record EventHandler =
  h_name :: string
  event :: string
  elementTag :: "string option"
  elementId :: "string option"
  body :: "string option"
  isAsync :: bool
  apiCalls :: "ApiCall list option"

definition DESTRUCTIVE_KEYWORDS :: "string list" where
  "DESTRUCTIVE_KEYWORDS =
     [''delete'', ''remove'', ''destroy'', ''drop'', ''purge'', ''erase'',
      ''revoke'', ''terminate'', ''cancel'', ''unsubscribe'', ''deactivate'',
      ''reset'', ''wipe'', ''clear-all'']"

definition CAUTION_KEYWORDS :: "string list" where
  "CAUTION_KEYWORDS =
     [''update'', ''edit'', ''modify'', ''change'', ''save'', ''submit'',
      ''post'', ''put'', ''patch'', ''send'', ''publish'', ''create'',
      ''toggle'', ''enable'', ''disable'', ''set'']"

definition EXCLUDED_PATTERNS :: "string list" where
  "EXCLUDED_PATTERNS =
     [''navigate'', ''redirect'', ''route'', ''link'', ''href'', ''goto'',
      ''file-upload'', ''upload-file'']"

section \<open>Risk classifier (classifier/risk-classifier.ts)\<close>

record RiskClassification =
  risk :: ToolRisk
  reason :: string

text \<open>
  The text signals collected by \<open>classifyRisk\<close>, in push order: the trigger's label, name
  and id, then the handler's name and body, each only when present and non-empty, each
  lowercased.
\<close>

fun signal :: "string option \<Rightarrow> string list" where
  "signal None = []"
| "signal (Some s) = (if s = [] then [] else [toLowerCase s])"

definition signals :: "UIElement option \<Rightarrow> EventHandler option \<Rightarrow> string list" where
  "signals triggerElement handler =
     signal (Option.bind triggerElement label)
     @ signal (Option.bind triggerElement el_name)
     @ signal (Option.bind triggerElement el_id)
     @ signal (map_option h_name handler)
     @ signal (Option.bind handler body)"

definition allText :: "UIElement option \<Rightarrow> EventHandler option \<Rightarrow> string" where
  "allText triggerElement handler = join '' '' (signals triggerElement handler)"

definition httpMethods :: "EventHandler option \<Rightarrow> string list" where
  "httpMethods handler =
     (case Option.bind handler apiCalls of
        Some calls \<Rightarrow> map (\<lambda>c. toUpperCase (http_method c)) calls
      | None \<Rightarrow> [])"

definition classifyRisk :: "UIElement option \<Rightarrow> EventHandler option \<Rightarrow> RiskClassification" where
  "classifyRisk triggerElement handler =
     (let txt = allText triggerElement handler;
          methods = httpMethods handler
      in case find (str_includes txt) EXCLUDED_PATTERNS of
           Some pattern \<Rightarrow>
             \<lparr>risk = Excluded, reason = ''Matches excluded pattern: \"'' @ pattern @ ''\"''\<rparr>
         | None \<Rightarrow>
        (case find (str_includes txt) DESTRUCTIVE_KEYWORDS of
           Some keyword \<Rightarrow>
             \<lparr>risk = Destructive, reason = ''Contains destructive keyword: \"'' @ keyword @ ''\"''\<rparr>
         | None \<Rightarrow>
        if ''DELETE'' \<in> set methods then
          \<lparr>risk = Destructive, reason = ''Handler makes DELETE API call''\<rparr>
        else
        (case find (str_includes txt) CAUTION_KEYWORDS of
           Some keyword \<Rightarrow>
             \<lparr>risk = Caution, reason = ''Contains mutation keyword: \"'' @ keyword @ ''\"''\<rparr>
         | None \<Rightarrow>
        if list_ex (\<lambda>m. m \<in> set [''POST'', ''PUT'', ''PATCH'']) methods then
          \<lparr>risk = Caution, reason = ''Handler makes '' @ join '', '' methods @ '' API call''\<rparr>
        else
          \<lparr>risk = Safe, reason = ''No mutation or destructive signals detected''\<rparr>)))"

text \<open>The outbound API calls recorded on an optional handler (\<open>handler?.apiCalls ?? []\<close>).\<close>

definition recordedCalls :: "EventHandler option \<Rightarrow> ApiCall list" where
  "recordedCalls handler = (case Option.bind handler apiCalls of Some calls \<Rightarrow> calls | None \<Rightarrow> [])"

text \<open>The element and handler builders of the classifier's test-suite.\<close>

definition makeElement :: UIElement where
  "makeElement = \<lparr>tag = ''button'', el_id = None, el_name = None, label = None,
     inputType = None, attributes = Map.empty, stateBinding = None, validation = None,
     accessibilityHints = None, parentFormId = None, selectorFallback = None\<rparr>"

definition makeHandler :: EventHandler where
  "makeHandler = \<lparr>h_name = ''handler'', event = ''onClick'', elementTag = None,
     elementId = None, body = None, isAsync = False, apiCalls = None\<rparr>"

section \<open>JavaScript values\<close>

text \<open>
  The values \<open>JSON.parse\<close> can return, plus \<open>undefined\<close>. An object is an association
  list of its own properties in insertion order; an array carries its elements and any
  named properties assigned to it later. (JavaScript enumerates integer-like keys first;
  that order is not modelled.)
\<close>

datatype jsval =
    JUndefined
  | JNull
  | JBool bool
  | JNum real
  | JStr string
  | JArr "jsval list" "(string \<times> jsval) list"
  | JObj "(string \<times> jsval) list"

text \<open>\<open>obj[k] = v\<close> on an association list: overwrite in place, else append.\<close>

fun assign :: "'k \<Rightarrow> 'v \<Rightarrow> ('k \<times> 'v) list \<Rightarrow> ('k \<times> 'v) list" where
  "assign k v [] = [(k, v)]"
| "assign k v ((k', v') # kvs) = (if k' = k then (k, v) # kvs else (k', v') # assign k v kvs)"

section \<open>Components, candidates and proposals (types.ts, proposal/index.ts)\<close>

datatype StateKind = UseState | UseRef | UseReducer | FormLibraryKind | OtherKind

record StateVariable =
  sv_name :: string
  sv_setter :: "string option"
  initialValue :: "string option"
  sv_type :: "string option"
  kind :: StateKind

record PropDefinition =
  pd_name :: string
  pd_type :: "string option"
  pd_required :: bool
  defaultValue :: "string option"

datatype ComponentType = FormComponent | ActionComponent | DisplayComponent | MixedComponent

datatype FormLibrary = ReactHookForm | Formik | NoLibrary

record ComponentInfo =
  c_name :: string
  c_type :: ComponentType
  elements :: "UIElement list"
  eventHandlers :: "EventHandler list"
  stateVariables :: "StateVariable list"
  props :: "PropDefinition list"
  formLibrary :: "FormLibrary option"

datatype FrameworkType = React | Html | Vue

record ComponentAnalysis =
  fileName :: string
  framework :: FrameworkType
  components :: "ComponentInfo list"

record ToolInputProperty =
  p_type :: string
  p_description :: string
  p_enum :: "string list option"
  p_default :: "jsval option"

record ToolInputSchema =
  schema_type :: string
  properties :: "(string \<times> ToolInputProperty) list"
  required :: "string list"

record SourceMapping =
  sm_componentName :: string
  sm_triggerElement :: "UIElement option"
  sm_inputElements :: "UIElement list"
  sm_handler :: "EventHandler option"

record ToolProposal =
  tp_index :: nat
  tp_id :: string
  tp_name :: string
  description :: string
  tp_risk :: ToolRisk
  riskReason :: "string option"
  isStable :: "bool option"
  unstableReason :: "string option"
  selected :: bool
  inputSchema :: ToolInputSchema
  sourceMapping :: SourceMapping

datatype CandidateType = Form | Action

fun candidateTypeName :: "CandidateType \<Rightarrow> string" where
  "candidateTypeName Form = ''form''"
| "candidateTypeName Action = ''action''"

record ToolCandidate =
  cand_type :: CandidateType
  componentName :: string
  triggerElement :: "UIElement option"
  inputElements :: "UIElement list"
  handler :: "EventHandler option"

subsection \<open>Grouping\<close>

definition isPasswordOnly :: "UIElement \<Rightarrow> bool" where
  "isPasswordOnly el = (inputType el = Some ''password'')"

text \<open>
  The filter that selects a candidate's inputs, written out three times in
  \<open>groupIntoToolCandidates\<close>: an input, textarea or select that is neither a password nor a
  file input.
\<close>

definition isFormInput :: "UIElement \<Rightarrow> bool" where
  "isFormInput el =
     (tag el \<in> set [''input'', ''textarea'', ''select'']
      \<and> \<not> isPasswordOnly el
      \<and> inputType el \<noteq> Some ''file'')"

definition isSubmitButton :: "UIElement \<Rightarrow> bool" where
  "isSubmitButton el =
     (tag el = ''button''
      \<and> (inputType el = Some ''submit'' \<or> attributes el ''type'' = Some ''submit''))"

text \<open>
  \<open>usedButtons\<close> is a set of object references. Every element of a component is its own
  object, so an element is identified by its position in \<open>component.elements\<close>;
  \<open>find\<close> returns the first match together with that position.
\<close>

definition findElement :: "(UIElement \<Rightarrow> bool) \<Rightarrow> UIElement list \<Rightarrow> (nat \<times> UIElement) option" where
  "findElement P els = find (\<lambda>(i, el). P el) (enumerate 0 els)"

text \<open>\<open>a ?? b\<close>.\<close>

fun orElse :: "'a option \<Rightarrow> 'a option \<Rightarrow> 'a option" where
  "orElse (Some a) b = Some a"
| "orElse None b = b"

text \<open>Path A: one form candidate per \<open>onSubmit\<close> handler.\<close>

definition submitPath ::
  "ComponentInfo \<Rightarrow> EventHandler list \<Rightarrow> ToolCandidate list \<times> nat list" where
  "submitPath component submitHandlers =
     (let inputs = filter isFormInput (elements component);
          submitBtn = orElse (findElement isSubmitButton (elements component))
                             (findElement (\<lambda>el. tag el = ''button'') (elements component))
      in (map (\<lambda>handler.
                \<lparr>cand_type = Form, componentName = c_name component,
                 triggerElement = map_option snd submitBtn, inputElements = inputs,
                 handler = Some handler\<rparr>) submitHandlers,
          case submitBtn of Some (i, el) \<Rightarrow> [i] | None \<Rightarrow> []))"

text \<open>Path B: one iteration of the loop over the \<open>form\<close> elements.\<close>

definition formInputs :: "ComponentInfo \<Rightarrow> string option \<Rightarrow> UIElement list" where
  "formInputs component formId =
     filter (\<lambda>el. isFormInput el
                \<and> (formId = None \<or> parentFormId el = formId \<or> parentFormId el = None))
       (elements component)"

definition formTrigger :: "ComponentInfo \<Rightarrow> string option \<Rightarrow> (nat \<times> UIElement) option" where
  "formTrigger component formId =
     orElse (findElement (\<lambda>el. isSubmitButton el \<and> (formId = None \<or> parentFormId el = formId))
               (elements component))
            (findElement (\<lambda>el. tag el = ''button'') (elements component))"

definition formCandidate :: "ComponentInfo \<Rightarrow> UIElement \<Rightarrow> ToolCandidate list \<times> nat list" where
  "formCandidate component formEl =
     (let formId = el_id formEl;
          inputs = formInputs component formId;
          submitBtn = formTrigger component formId;
          handler = find (\<lambda>h. event h = ''onSubmit'') (eventHandlers component)
      in (if inputs \<noteq> [] \<or> submitBtn \<noteq> None
          then [\<lparr>cand_type = Form, componentName = c_name component,
                 triggerElement = map_option snd submitBtn, inputElements = inputs,
                 handler = handler\<rparr>]
          else [],
          case submitBtn of Some (i, el) \<Rightarrow> [i] | None \<Rightarrow> []))"

text \<open>Path B with no \<open>form\<close> element at all: the inputs and a button form one group.\<close>

definition implicitGroup :: "ComponentInfo \<Rightarrow> ToolCandidate list \<times> nat list" where
  "implicitGroup component =
     (let inputs = filter isFormInput (elements component);
          submitBtn = orElse (findElement isSubmitButton (elements component))
                             (findElement (\<lambda>el. tag el = ''button'') (elements component))
      in case submitBtn of
           Some (i, el) \<Rightarrow>
             if inputs \<noteq> []
             then ([\<lparr>cand_type = Form, componentName = c_name component,
                     triggerElement = Some el, inputElements = inputs, handler = None\<rparr>], [i])
             else ([], [])
         | None \<Rightarrow> ([], []))"

definition formPath :: "ComponentInfo \<Rightarrow> ToolCandidate list \<times> nat list" where
  "formPath component =
     (let formElements = filter (\<lambda>el. tag el = ''form'') (elements component);
          perForm = map (formCandidate component) formElements;
          implicit = (if formElements = [] then implicitGroup component else ([], []))
      in (concat (map fst perForm) @ fst implicit, concat (map snd perForm) @ snd implicit))"

definition findHandlerForButton :: "UIElement \<Rightarrow> EventHandler list \<Rightarrow> EventHandler option" where
  "findHandlerForButton btn handlers =
     (let byTag = find (\<lambda>h. event h = ''onClick'' \<and> elementTag h = Some ''button'') handlers
      in case el_id btn of
           None \<Rightarrow> byTag
         | Some i \<Rightarrow>
             if i = [] then byTag
             else orElse (find (\<lambda>h. elementId h = Some i \<and> event h = ''onClick'') handlers) byTag)"

definition groupIntoToolCandidates :: "ComponentInfo \<Rightarrow> ToolCandidate list" where
  "groupIntoToolCandidates component =
     (let submitHandlers = filter (\<lambda>h. event h = ''onSubmit'') (eventHandlers component);
          (candidates, usedButtons) =
            (if submitHandlers \<noteq> [] then submitPath component submitHandlers
             else formPath component);
          standaloneButtons =
            filter (\<lambda>(i, el). tag el = ''button''
                      \<and> inputType el \<noteq> Some ''submit''
                      \<and> attributes el ''type'' \<noteq> Some ''submit''
                      \<and> i \<notin> set usedButtons)
              (enumerate 0 (elements component))
      in candidates
         @ map (\<lambda>(i, btn).
                 \<lparr>cand_type = Action, componentName = c_name component,
                  triggerElement = Some btn, inputElements = [],
                  handler = findHandlerForButton btn (eventHandlers component)\<rparr>)
             standaloneButtons)"

subsection \<open>Names, descriptions and schemas\<close>

definition digits :: string where
  "digits = ''0123456789''"

definition whitespace :: string where
  "whitespace = [CHR 0x09, CHR 0x0A, CHR 0x0B, CHR 0x0C, CHR 0x0D, CHR '' '']"

text \<open>
  \<open>s.replace(/[...]+/g, '_')\<close>: every maximal run of characters satisfying \<open>P\<close> becomes
  one underscore (emitted at the last character of the run).
\<close>

fun collapseRuns :: "(char \<Rightarrow> bool) \<Rightarrow> string \<Rightarrow> string" where
  "collapseRuns P [] = []"
| "collapseRuns P [c] = (if P c then ''_'' else [c])"
| "collapseRuns P (c # d # cs) =
     (if P c then (if P d then collapseRuns P (d # cs) else CHR ''_'' # collapseRuns P (d # cs))
      else c # collapseRuns P (d # cs))"

text \<open>\<open>s.replace(/^_|_$/g, '')\<close>: drop one leading and one trailing underscore.\<close>

fun dropLeadingUnderscore :: "string \<Rightarrow> string" where
  "dropLeadingUnderscore [] = []"
| "dropLeadingUnderscore (c # cs) = (if c = CHR ''_'' then cs else c # cs)"

definition trimUnderscores :: "string \<Rightarrow> string" where
  "trimUnderscores s = rev (dropLeadingUnderscore (rev (dropLeadingUnderscore s)))"

definition toSnakeCase :: "string \<Rightarrow> string" where
  "toSnakeCase str =
     toLowerCase
       (trimUnderscores
         (collapseRuns (\<lambda>c. c = CHR ''_'')
           (filter (\<lambda>c. c \<in> set (lower_letters @ upper_letters @ digits @ ''_''))
             (collapseRuns (\<lambda>c. c \<in> set (whitespace @ ''-''))
               (concat (map (\<lambda>c. if c \<in> set upper_letters then [CHR ''_'', c] else [c]) str))))))"

definition generateToolName :: "ToolCandidate \<Rightarrow> string" where
  "generateToolName candidate =
     (let componentSlug = toSnakeCase (componentName candidate)
      in case cand_type candidate of
           Form \<Rightarrow>
             (case orElse (Option.bind (triggerElement candidate) label)
                          (map_option h_name (handler candidate)) of
                Some l \<Rightarrow> if l \<noteq> [] then toSnakeCase l @ ''_'' @ componentSlug
                          else ''submit_'' @ componentSlug
              | None \<Rightarrow> ''submit_'' @ componentSlug)
         | Action \<Rightarrow>
             (case orElse (Option.bind (triggerElement candidate) label)
                    (orElse (Option.bind (triggerElement candidate) el_id)
                            (map_option h_name (handler candidate))) of
                Some l \<Rightarrow> if l \<noteq> [] then toSnakeCase l else ''action_in_'' @ componentSlug
              | None \<Rightarrow> ''action_in_'' @ componentSlug))"

definition generateDescription :: "ToolCandidate \<Rightarrow> string" where
  "generateDescription candidate =
     (let btnLabel = (case Option.bind (triggerElement candidate) label of
                        Some l \<Rightarrow> l | None \<Rightarrow> [])
      in case cand_type candidate of
           Form \<Rightarrow>
             (let fields =
                    join '', ''
                      (take 3
                        (filter (\<lambda>s. s \<noteq> [])
                          (map (\<lambda>el. case orElse (label el) (orElse (el_name el) (el_id el)) of
                                       Some s \<Rightarrow> s | None \<Rightarrow> tag el)
                             (inputElements candidate))))
              in if btnLabel \<noteq> [] \<and> fields \<noteq> [] then btnLabel @ '' the form with: '' @ fields
                 else if btnLabel \<noteq> [] then
                   btnLabel @ '' the '' @ componentName candidate @ '' form''
                 else ''Fill and submit the '' @ componentName candidate @ '' form'')
         | Action \<Rightarrow>
             if btnLabel \<noteq> [] then ''Trigger: '' @ btnLabel
             else ''Perform action in '' @ componentName candidate)"

definition mapInputTypeToJSONType :: "string \<Rightarrow> string" where
  "mapInputTypeToJSONType t =
     (if t = ''number'' \<or> t = ''range'' then ''number''
      else if t = ''checkbox'' then ''boolean''
      else if t = ''date'' \<or> t = ''datetime-local'' \<or> t = ''time'' then ''string''
      else ''string'')"

text \<open>One iteration of the loop of \<open>buildSchema\<close>, on the pair (properties, required).\<close>

definition addField ::
  "UIElement \<Rightarrow> (string \<times> ToolInputProperty) list \<times> string list
     \<Rightarrow> (string \<times> ToolInputProperty) list \<times> string list" where
  "addField el acc =
     (case orElse (el_name el)
             (orElse (el_id el) (orElse (map_option variable (stateBinding el)) (label el))) of
        None \<Rightarrow> acc
      | Some fieldName \<Rightarrow>
          if fieldName = [] then acc
          else
            let safeKey = toSnakeCase fieldName;
                ty = mapInputTypeToJSONType (case inputType el of Some t \<Rightarrow> t | None \<Rightarrow> ''text'');
                descr = (case orElse (label el) (Option.bind (accessibilityHints el) ariaLabel) of
                           Some d \<Rightarrow> d
                         | None \<Rightarrow> (case inputType el of Some t \<Rightarrow> t | None \<Rightarrow> tag el) @ '' field'');
                prop = \<lparr>p_type = ty,
                        p_description =
                          (if tag el = ''select'' then descr @ '' (select field)'' else descr),
                        p_enum = None, p_default = None\<rparr>
            in (assign safeKey prop (fst acc),
                if (case validation el of Some v \<Rightarrow> ''required'' \<in> set v | None \<Rightarrow> False)
                then snd acc @ [safeKey] else snd acc))"

definition buildSchema :: "ToolCandidate \<Rightarrow> ToolInputSchema" where
  "buildSchema candidate =
     (let (props, req) = fold addField (inputElements candidate) ([], [])
      in \<lparr>schema_type = ''object'', properties = props, required = req\<rparr>)"

subsection \<open>Confidence stability assessment\<close>

definition apostrophe :: string where
  "apostrophe = [CHR 0x27]"

definition threshold :: real where
  "threshold = 0.6"

text \<open>\<open>Math.max(...scores)\<close> on a non-empty list, given as head and tail.\<close>

definition Math_max :: "real \<Rightarrow> real list \<Rightarrow> real" where
  "Math_max x xs = fold max xs x"

record Stability =
  st_isStable :: bool
  st_unstableReason :: "string option"

text \<open>
  Scores are IEEE doubles in the source; they are modelled as reals, each decimal literal
  standing for itself. \<open>toFixed1\<close> stands for \<open>n.toFixed(1)\<close>, the number formatting of
  the language, and is a parameter.
\<close>

definition lacksSelectorReason :: "UIElement \<Rightarrow> string" where
  "lacksSelectorReason el =
     ''Input field '' @ apostrophe
     @ (case orElse (el_name el) (el_id el) of Some n \<Rightarrow> n | None \<Rightarrow> tag el)
     @ apostrophe @ '' lacks a runtime selector''"

definition unstableSelectorReason :: "(real \<Rightarrow> string) \<Rightarrow> UIElement \<Rightarrow> real \<Rightarrow> string" where
  "unstableSelectorReason toFixed1 el topScore =
     ''Unstable selector for '' @ apostrophe
     @ (case orElse (el_name el) (label el) of Some n \<Rightarrow> n | None \<Rightarrow> tag el)
     @ apostrophe @ '' (max confidence: '' @ toFixed1 topScore @ '' < 0.6)''"

definition unstableTriggerReason :: "(real \<Rightarrow> string) \<Rightarrow> real \<Rightarrow> string" where
  "unstableTriggerReason toFixed1 topScore =
     ''Unstable trigger selector (max confidence: '' @ toFixed1 topScore @ '' < 0.6)''"

text \<open>The loop over the input elements; \<open>None\<close> when it runs to its end.\<close>

fun assessInputs :: "(real \<Rightarrow> string) \<Rightarrow> UIElement list \<Rightarrow> Stability option" where
  "assessInputs toFixed1 [] = None"
| "assessInputs toFixed1 (el # els) =
     (case selectorFallback el of
        None \<Rightarrow>
          Some \<lparr>st_isStable = False, st_unstableReason = Some (lacksSelectorReason el)\<rparr>
      | Some [] \<Rightarrow>
          Some \<lparr>st_isStable = False, st_unstableReason = Some (lacksSelectorReason el)\<rparr>
      | Some (s # ss) \<Rightarrow>
          let topScore = Math_max (score s) (map score ss)
          in if topScore < threshold then
               Some \<lparr>st_isStable = False,
                     st_unstableReason = Some (unstableSelectorReason toFixed1 el topScore)\<rparr>
             else assessInputs toFixed1 els)"

definition assessTrigger :: "(real \<Rightarrow> string) \<Rightarrow> UIElement option \<Rightarrow> Stability" where
  "assessTrigger toFixed1 trigger =
     (case trigger of
        None \<Rightarrow> \<lparr>st_isStable = True, st_unstableReason = None\<rparr>
      | Some trg \<Rightarrow>
          (case selectorFallback trg of
             None \<Rightarrow>
               \<lparr>st_isStable = False,
                st_unstableReason = Some ''Trigger button lacks a runtime selector''\<rparr>
           | Some [] \<Rightarrow>
               \<lparr>st_isStable = False,
                st_unstableReason = Some ''Trigger button lacks a runtime selector''\<rparr>
           | Some (s # ss) \<Rightarrow>
               let topScore = Math_max (score s) (map score ss)
               in if topScore < threshold then
                    \<lparr>st_isStable = False,
                     st_unstableReason = Some (unstableTriggerReason toFixed1 topScore)\<rparr>
                  else \<lparr>st_isStable = True, st_unstableReason = None\<rparr>))"

definition assessStability :: "(real \<Rightarrow> string) \<Rightarrow> ToolCandidate \<Rightarrow> Stability" where
  "assessStability toFixed1 candidate =
     (case assessInputs toFixed1 (inputElements candidate) of
        Some unstable \<Rightarrow> unstable
      | None \<Rightarrow> assessTrigger toFixed1 (triggerElement candidate))"

subsection \<open>Stable identity\<close>

text \<open>
  \<open>sha256hex\<close> stands for \<open>createHash('sha256').update(raw).digest('hex')\<close> of the
  platform's crypto library and is a parameter.
\<close>

text \<open>The three strings pushed for an input: identifier, accessibility label, role.\<close>

definition fieldIdentifier :: "UIElement \<Rightarrow> string" where
  "fieldIdentifier el =
     (case orElse (el_name el) (orElse (el_id el) (map_option variable (stateBinding el))) of
        Some f \<Rightarrow> f | None \<Rightarrow> [])"

definition fieldLabel :: "UIElement \<Rightarrow> string" where
  "fieldLabel el =
     (case orElse (label el) (Option.bind (accessibilityHints el) ariaLabel) of
        Some l \<Rightarrow> l | None \<Rightarrow> [])"

definition fieldRole :: "UIElement \<Rightarrow> string" where
  "fieldRole el = (case inputType el of Some t \<Rightarrow> t | None \<Rightarrow> tag el)"

text \<open>The three strings pushed for the trigger: tag, label, \<open>name\<close> attribute.\<close>

definition triggerLabel :: "UIElement \<Rightarrow> string" where
  "triggerLabel trg = (case label trg of Some l \<Rightarrow> l | None \<Rightarrow> [])"

definition triggerNameAttribute :: "UIElement \<Rightarrow> string" where
  "triggerNameAttribute trg = (case attributes trg ''name'' of Some n \<Rightarrow> n | None \<Rightarrow> [])"

definition idParts :: "ToolCandidate \<Rightarrow> string list" where
  "idParts candidate =
     [componentName candidate, candidateTypeName (cand_type candidate)]
     @ (case triggerElement candidate of
          Some trg \<Rightarrow> [tag trg, triggerLabel trg, triggerNameAttribute trg]
        | None \<Rightarrow> [])
     @ concat (map (\<lambda>el. [fieldIdentifier el, fieldLabel el, fieldRole el])
                 (inputElements candidate))"

definition generateToolId :: "(string \<Rightarrow> string) \<Rightarrow> ToolCandidate \<Rightarrow> string" where
  "generateToolId sha256hex candidate =
     (let raw = toLowerCase (join ''|'' (idParts candidate))
      in take 12 (sha256hex raw))"

subsection \<open>buildProposals\<close>

text \<open>
  The body of the inner loop, on the pair (proposals, index): an excluded candidate is
  skipped (\<open>continue\<close>), any other is appended with the current index, which is then
  incremented.
\<close>

definition addCandidate ::
  "(string \<Rightarrow> string) \<Rightarrow> (real \<Rightarrow> string) \<Rightarrow> ToolCandidate
     \<Rightarrow> ToolProposal list \<times> nat \<Rightarrow> ToolProposal list \<times> nat" where
  "addCandidate sha256hex toFixed1 candidate acc =
     (let rc = classifyRisk (triggerElement candidate) (handler candidate)
      in if risk rc = Excluded then acc
         else
           let stability = assessStability toFixed1 candidate
           in (fst acc @
                 [\<lparr>tp_index = snd acc,
                   tp_id = generateToolId sha256hex candidate,
                   tp_name = generateToolName candidate,
                   description = generateDescription candidate,
                   tp_risk = risk rc,
                   riskReason = Some (reason rc),
                   isStable = Some (st_isStable stability),
                   unstableReason = st_unstableReason stability,
                   selected = (risk rc \<noteq> Destructive \<and> Some (st_isStable stability) \<noteq> Some False),
                   inputSchema = buildSchema candidate,
                   sourceMapping =
                     \<lparr>sm_componentName = componentName candidate,
                      sm_triggerElement = triggerElement candidate,
                      sm_inputElements = inputElements candidate,
                      sm_handler = handler candidate\<rparr>\<rparr>],
               snd acc + 1))"

definition buildProposals ::
  "(string \<Rightarrow> string) \<Rightarrow> (real \<Rightarrow> string) \<Rightarrow> ComponentAnalysis \<Rightarrow> ToolProposal list" where
  "buildProposals sha256hex toFixed1 analysis =
     fst (fold (\<lambda>component. fold (addCandidate sha256hex toFixed1) (groupIntoToolCandidates component))
            (components analysis) ([], 1))"

subsection \<open>The invariant of the loops of buildProposals\<close>

text \<open>
  A proposal comes from a candidate of a component of the analysis: it is what
  \<open>addCandidate\<close> appends for it at the proposal's index.
\<close>

definition fromCandidate ::
  "(string \<Rightarrow> string) \<Rightarrow> (real \<Rightarrow> string) \<Rightarrow> ComponentAnalysis \<Rightarrow> ToolProposal \<Rightarrow> bool" where
  "fromCandidate H F a p =
     (\<exists>component \<in> set (components a). \<exists>c \<in> set (groupIntoToolCandidates component).
        addCandidate H F c ([], tp_index p) = ([p], Suc (tp_index p)))"

definition loopInv ::
  "(string \<Rightarrow> string) \<Rightarrow> (real \<Rightarrow> string) \<Rightarrow> ComponentAnalysis
     \<Rightarrow> ToolProposal list \<times> nat \<Rightarrow> bool" where
  "loopInv H F a acc =
     (snd acc = Suc (length (fst acc))
      \<and> map tp_index (fst acc) = [1..<snd acc]
      \<and> (\<forall>p \<in> set (fst acc). fromCandidate H F a p))"

subsection \<open>The stability gate as the specification words it\<close>

text \<open>
  The highest score of an element's selector-fallback list; \<open>None\<close> when the element has
  no list or an empty one.
\<close>

definition topScore :: "UIElement \<Rightarrow> real option" where
  "topScore el =
     (case selectorFallback el of
        None \<Rightarrow> None
      | Some ss \<Rightarrow> if ss = [] then None else Some (Max (set (map score ss))))"




section \<open>AST to runtime matcher (classifier/matcher.ts)\<close>

record Bounds =
  b_x :: real
  b_y :: real
  b_width :: real
  b_height :: real

record ProbeElement =
  p_tag :: string
  p_id :: "string option"
  nameAttribute :: "string option"
  p_inputType :: "string option"
  accessibleName :: string
  p_role :: string
  selector :: string
  bounds :: "Bounds option"
  p_attributes :: "string \<rightharpoonup> string"
  isInteractive :: bool

definition mapTagToRole :: "string \<Rightarrow> string option \<Rightarrow> string" where
  "mapTagToRole t ity =
     (let orEmpty = (case ity of Some i \<Rightarrow> i | None \<Rightarrow> []);
          orText = (if orEmpty = [] then ''text'' else orEmpty)
      in if t = ''button'' then ''button''
         else if t = ''select'' then ''combobox''
         else if t = ''textarea'' then ''textbox''
         else if t = ''input'' then
           (if orEmpty \<in> set [''submit'', ''button'', ''reset''] then ''button''
            else if orText \<in> set [''text'', ''email'', ''password'', ''search'', ''url'']
              then ''textbox''
            else if ity = Some ''checkbox'' then ''checkbox''
            else if ity = Some ''radio'' then ''radio''
            else t)
         else t)"

text \<open>
  Match scores are sums of decimal weights; the model adds them as reals, so the sums are
  exact where the source rounds to the nearest double.
\<close>

text \<open>\<open>a && a === b\<close> for an optional string \<open>a\<close>: present, non-empty and equal.\<close>

definition sameTruthy :: "string option \<Rightarrow> string option \<Rightarrow> bool" where
  "sameTruthy a b = (case a of Some s \<Rightarrow> s \<noteq> [] \<and> b = Some s | None \<Rightarrow> False)"

definition calculateMatchScore :: "UIElement \<Rightarrow> ProbeElement \<Rightarrow> real" where
  "calculateMatchScore astEl probeEl =
     (let s1 = (if sameTruthy (el_id astEl) (p_id probeEl) then 0.5 else 0);
          s2 = (if sameTruthy (el_name astEl) (nameAttribute probeEl) then 0.4 else 0);
          s3 = (if sameTruthy (attributes astEl ''data-testid'') (p_attributes probeEl ''data-testid'')
                then 0.6 else 0);
          s4 = (if sameTruthy (attributes astEl ''data-mcp'') (p_attributes probeEl ''data-mcp'')
                then 0.8 else 0);
          astLabel = toLowerCase (fieldLabel astEl);
          probeLabel = toLowerCase (accessibleName probeEl);
          s5 = (if astLabel \<noteq> [] \<and> probeLabel \<noteq> [] then
                  (if astLabel = probeLabel then 0.4
                   else if str_includes probeLabel astLabel \<or> str_includes astLabel probeLabel
                     then 0.2
                   else 0)
                else 0);
          expectedRole = mapTagToRole (tag astEl) (inputType astEl);
          s6 = (if expectedRole = p_role probeEl then 0.2 else 0)
      in min (s1 + s2 + s3 + s4 + s5 + s6) 1.0)"

text \<open>
  \<open>strategies.sort((a, b) => b.score - a.score)\<close>: a stable sort, descending by score.
\<close>

definition sortByScore :: "SelectorStrategy list \<Rightarrow> SelectorStrategy list" where
  "sortByScore strategies = sort_key (\<lambda>s. - score s) strategies"

definition synthesizeStrategies :: "ProbeElement \<Rightarrow> real \<Rightarrow> SelectorStrategy list" where
  "synthesizeStrategies probeEl matchScore =
     sortByScore
       ((case p_attributes probeEl ''data-mcp'' of
           Some v \<Rightarrow> if v \<noteq> [] then [\<lparr>strategy = Mcp, sel_value = v, score = 1.0\<rparr>] else []
         | None \<Rightarrow> [])
        @ (case p_attributes probeEl ''data-testid'' of
             Some v \<Rightarrow> if v \<noteq> [] then [\<lparr>strategy = Testid, sel_value = v, score = 0.9\<rparr>] else []
           | None \<Rightarrow> [])
        @ (if accessibleName probeEl \<noteq> []
           then [\<lparr>strategy = Label, sel_value = accessibleName probeEl, score = 0.8\<rparr>] else [])
        @ (if p_role probeEl \<noteq> [] \<and> accessibleName probeEl \<noteq> []
           then [\<lparr>strategy = Role, sel_value = p_role probeEl @ '':'' @ accessibleName probeEl,
                  score = 0.6\<rparr>]
           else [])
        @ [\<lparr>strategy = Css, sel_value = selector probeEl, score = max 0.2 (matchScore * 0.5)\<rparr>])"

definition fallbackToASTStrategies :: "UIElement \<Rightarrow> SelectorStrategy list" where
  "fallbackToASTStrategies astEl =
     sortByScore
       ((case el_id astEl of
           Some i \<Rightarrow> if i \<noteq> [] then [\<lparr>strategy = Css, sel_value = ''#'' @ i, score = 0.5\<rparr>] else []
         | None \<Rightarrow> [])
        @ (case el_name astEl of
             Some n \<Rightarrow>
               if n \<noteq> []
               then [\<lparr>strategy = Css, sel_value = tag astEl @ ''[name=\"'' @ n @ ''\"]'',
                      score = 0.4\<rparr>]
               else []
           | None \<Rightarrow> [])
        @ (case attributes astEl ''data-testid'' of
             Some v \<Rightarrow> if v \<noteq> [] then [\<lparr>strategy = Testid, sel_value = v, score = 0.9\<rparr>] else []
           | None \<Rightarrow> [])
        @ [\<lparr>strategy = Css, sel_value = tag astEl, score = 0.1\<rparr>])"

text \<open>The inner loop: the best-scoring probe element so far and its score.\<close>

definition betterMatch ::
  "UIElement \<Rightarrow> ProbeElement \<Rightarrow> ProbeElement option \<times> real \<Rightarrow> ProbeElement option \<times> real" where
  "betterMatch astEl probeEl best =
     (let sc = calculateMatchScore astEl probeEl
      in if sc > snd best then (Some probeEl, sc) else best)"

definition matchElement :: "ProbeElement list \<Rightarrow> UIElement \<Rightarrow> UIElement" where
  "matchElement probeElements astEl =
     (case fold (betterMatch astEl) probeElements (None, 0) of
        (Some bestMatch, bestScore) \<Rightarrow>
          if bestScore > 0.3
          then astEl\<lparr>selectorFallback := Some (synthesizeStrategies bestMatch bestScore)\<rparr>
          else astEl\<lparr>selectorFallback := Some (fallbackToASTStrategies astEl)\<rparr>
      | (None, bestScore) \<Rightarrow>
          astEl\<lparr>selectorFallback := Some (fallbackToASTStrategies astEl)\<rparr>)"

text \<open>
  \<open>matchElementsToProbe\<close> assigns to the \<open>selectorFallback\<close> field of every element of the
  array; the model returns the updated elements in the same order.
\<close>

definition matchElementsToProbe :: "UIElement list \<Rightarrow> ProbeElement list \<Rightarrow> UIElement list" where
  "matchElementsToProbe astElements probeElements = map (matchElement probeElements) astElements"

section \<open>Incremental cache (cache/hash.ts, cache/index.ts)\<close>

subsection \<open>The interactive-surface hash\<close>

record InputSignature =
  is_t :: string
  is_n :: "string option"
  is_i :: "string option"
  is_l :: "string option"
  is_s :: bool

record TriggerSignature =
  ts_t :: string
  ts_n :: "string option"
  ts_l :: "string option"

record HandlerSignature =
  hs_n :: string
  hs_ev :: string

record SurfaceSignature =
  sig_c :: string
  sig_e :: "InputSignature list"
  sig_t :: "TriggerSignature option"
  sig_h :: "HandlerSignature option"
  sig_schema :: ToolInputSchema

definition surfaceSignature :: "ToolProposal \<Rightarrow> SurfaceSignature" where
  "surfaceSignature tool =
     \<lparr>sig_c = sm_componentName (sourceMapping tool),
      sig_e = map (\<lambda>el. \<lparr>is_t = tag el, is_n = el_name el, is_i = inputType el, is_l = label el,
                          is_s = (stateBinding el \<noteq> None)\<rparr>)
                (sm_inputElements (sourceMapping tool)),
      sig_t = map_option (\<lambda>trg. \<lparr>ts_t = tag trg, ts_n = el_name trg, ts_l = label trg\<rparr>)
                (sm_triggerElement (sourceMapping tool)),
      sig_h = map_option (\<lambda>h. \<lparr>hs_n = h_name h, hs_ev = event h\<rparr>)
                (sm_handler (sourceMapping tool)),
      sig_schema = inputSchema tool\<rparr>"

text \<open>
  \<open>stringify\<close> stands for \<open>JSON.stringify\<close> on the signature object and \<open>sha256hex\<close> for
  the digest of the platform's crypto library; both are parameters.
\<close>

definition hashInteractiveSurface ::
  "(string \<Rightarrow> string) \<Rightarrow> (SurfaceSignature \<Rightarrow> string) \<Rightarrow> ToolProposal \<Rightarrow> string" where
  "hashInteractiveSurface sha256hex stringify tool = sha256hex (stringify (surfaceSignature tool))"

subsection \<open>The cache and its storage\<close>

datatype js_error = TypeError | IOError

text \<open>
  The cache file as the three library calls of \<open>loadCache\<close> see it: \<open>existsSync\<close> is
  false; \<open>readFileSync\<close> throws; \<open>JSON.parse\<close> throws; or \<open>JSON.parse\<close> returns a value.
\<close>

datatype CacheFile = Absent | Unreadable | Malformed | Parsed jsval

text \<open>
  The state the cache module works on: the file, whether the directory and file can be
  written, and the module variable \<open>inMemoryCache\<close> (initially \<open>null\<close>).
\<close>

record World =
  cacheFile :: CacheFile
  writable :: bool
  inMemoryCache :: jsval

fun truthy :: "jsval \<Rightarrow> bool" where
  "truthy JUndefined = False"
| "truthy JNull = False"
| "truthy (JBool b) = b"
| "truthy (JNum n) = (n \<noteq> 0)"
| "truthy (JStr s) = (s \<noteq> [])"
| "truthy (JArr xs kvs) = True"
| "truthy (JObj kvs) = True"

text \<open>
  \<open>v[k]\<close> and \<open>v[k] = u\<close> (in a module, so in strict mode). The keys used here are
  digests and the word \<open>handlerBody\<close>, which name no array index and no inherited
  property, so only own named properties are looked up.
\<close>

fun getProp :: "jsval \<Rightarrow> string \<Rightarrow> js_error + jsval" where
  "getProp JUndefined k = Inl TypeError"
| "getProp JNull k = Inl TypeError"
| "getProp (JObj kvs) k = Inr (case map_of kvs k of Some v \<Rightarrow> v | None \<Rightarrow> JUndefined)"
| "getProp (JArr xs kvs) k = Inr (case map_of kvs k of Some v \<Rightarrow> v | None \<Rightarrow> JUndefined)"
| "getProp v k = Inr JUndefined"

fun setProp :: "jsval \<Rightarrow> string \<Rightarrow> jsval \<Rightarrow> js_error + jsval" where
  "setProp (JObj kvs) k u = Inr (JObj (assign k u kvs))"
| "setProp (JArr xs kvs) k u = Inr (JArr xs (assign k u kvs))"
| "setProp v k u = Inl TypeError"

definition loadCache :: "World \<Rightarrow> jsval \<times> World" where
  "loadCache w =
     (if truthy (inMemoryCache w) then (inMemoryCache w, w)
      else case cacheFile w of
             Absent \<Rightarrow> (JObj [], w\<lparr>inMemoryCache := JObj []\<rparr>)
           | Unreadable \<Rightarrow> (JObj [], w\<lparr>inMemoryCache := JObj []\<rparr>)
           | Malformed \<Rightarrow> (JObj [], w\<lparr>inMemoryCache := JObj []\<rparr>)
           | Parsed v \<Rightarrow> (v, w\<lparr>inMemoryCache := v\<rparr>))"

text \<open>
  What \<open>JSON.parse\<close> reads back from \<open>JSON.stringify(v)\<close>: properties whose value is
  \<open>undefined\<close> and the named properties of arrays are not written, and \<open>undefined\<close> in an
  array is written as \<open>null\<close>.
\<close>

fun persisted :: "jsval \<Rightarrow> jsval" where
  "persisted (JObj kvs) =
     JObj (map (\<lambda>kv. (fst kv, persisted (snd kv))) (filter (\<lambda>kv. snd kv \<noteq> JUndefined) kvs))"
| "persisted (JArr xs kvs) = JArr (map (\<lambda>v. if v = JUndefined then JNull else persisted v) xs) []"
| "persisted v = v"

definition saveCache :: "jsval \<Rightarrow> World \<Rightarrow> js_error option \<times> World" where
  "saveCache cache w =
     (if writable w then (None, w\<lparr>cacheFile := Parsed (persisted cache)\<rparr>)
      else (Some IOError, w))"

definition getCachedHandler ::
  "(string \<Rightarrow> string) \<Rightarrow> (SurfaceSignature \<Rightarrow> string) \<Rightarrow> ToolProposal \<Rightarrow> World
     \<Rightarrow> (js_error + jsval) \<times> World" where
  "getCachedHandler sha256hex stringify tool w =
     (let (cache, w') = loadCache w;
          hash = hashInteractiveSurface sha256hex stringify tool
      in case getProp cache hash of
           Inl e \<Rightarrow> (Inl e, w')
         | Inr entry \<Rightarrow>
             if truthy entry then (getProp entry ''handlerBody'', w') else (Inr JNull, w'))"

text \<open>\<open>now\<close> is the value of \<open>Date.now()\<close>.\<close>

definition setCachedHandler ::
  "(string \<Rightarrow> string) \<Rightarrow> (SurfaceSignature \<Rightarrow> string) \<Rightarrow> real \<Rightarrow> ToolProposal \<Rightarrow> string \<Rightarrow> World
     \<Rightarrow> js_error option \<times> World" where
  "setCachedHandler sha256hex stringify now tool handlerBody w =
     (let (cache, w') = loadCache w;
          hash = hashInteractiveSurface sha256hex stringify tool
      in case setProp cache hash (JObj [(''handlerBody'', JStr handlerBody), (''timestamp'', JNum now)]) of
           Inl e \<Rightarrow> (Some e, w')
         | Inr cache' \<Rightarrow> saveCache cache' (w'\<lparr>inMemoryCache := cache'\<rparr>))"

section \<open>HTML walker (parser/html-parser.ts)\<close>

















section \<open>Form scoping as the specification words it\<close>




section \<open>Example inputs\<close>




text \<open>
  Two candidates for the same contact form after a cosmetic refactoring: class attributes,
  validation markers, the parent form, selector data and the letter case of a label differ.
\<close>

definition contactCandidate :: ToolCandidate where
  "contactCandidate =
     \<lparr>cand_type = Form, componentName = ''ContactForm'',
      triggerElement = Some (makeElement\<lparr>label := Some ''Send'', attributes := [''class'' \<mapsto> ''btn'']\<rparr>),
      inputElements =
        [makeElement\<lparr>tag := ''input'', el_name := Some ''email'', label := Some ''Email'',
           inputType := Some ''email'', attributes := [''class'' \<mapsto> ''field'']\<rparr>],
      handler = None\<rparr>"

definition restyledCandidate :: ToolCandidate where
  "restyledCandidate =
     \<lparr>cand_type = Form, componentName = ''ContactForm'',
      triggerElement = Some (makeElement\<lparr>label := Some ''Send'',
        attributes := [''class'' \<mapsto> ''btn btn-primary''],
        selectorFallback := Some [\<lparr>strategy = Css, sel_value = ''button'', score = 0.1\<rparr>]\<rparr>),
      inputElements =
        [makeElement\<lparr>tag := ''input'', el_name := Some ''email'', label := Some ''EMAIL'',
           inputType := Some ''email'', attributes := [''class'' \<mapsto> ''wide''],
           validation := Some [''required''], parentFormId := Some ''contact''\<rparr>],
      handler = None\<rparr>"

text \<open>A static input and a probe element that matches it on no signal.\<close>

definition emailField :: UIElement where
  "emailField = makeElement\<lparr>tag := ''input'', el_name := Some ''email''\<rparr>"

definition unrelatedProbe :: ProbeElement where
  "unrelatedProbe =
     \<lparr>p_tag = ''a'', p_id = None, nameAttribute = None, p_inputType = None,
      accessibleName = ''Home'', p_role = ''link'', selector = ''a'', bounds = None,
      p_attributes = Map.empty, isInteractive = True\<rparr>"


text \<open>
  Four standalone buttons; the second is a navigation button, the last has no selector.
\<close>

definition stableButton :: "string \<Rightarrow> UIElement" where
  "stableButton l =
     makeElement\<lparr>label := Some l,
       selectorFallback := Some [\<lparr>strategy = Label, sel_value = l, score = 0.8\<rparr>]\<rparr>"

definition dashboardAnalysis :: ComponentAnalysis where
  "dashboardAnalysis =
     \<lparr>fileName = ''Dashboard.tsx'', framework = React,
      components =
        [\<lparr>c_name = ''Dashboard'', c_type = ActionComponent,
          elements =
            [stableButton ''Save Changes'', stableButton ''Navigate Home'',
             stableButton ''Delete Account'', makeElement\<lparr>label := Some ''Refresh''\<rparr>],
          eventHandlers = [], stateVariables = [], props = [], formLibrary = None\<rparr>]\<rparr>"

text \<open>
  A proposal, the same proposal after review (other index, risk, description and
  selection, restyled input), and a fresh process with no cache file.
\<close>

definition searchTool :: ToolProposal where
  "searchTool =
     \<lparr>tp_index = 1, tp_id = ''0123456789ab'', tp_name = ''search_page'',
      description = ''Search the form with: q'', tp_risk = Safe, riskReason = None,
      isStable = Some True, unstableReason = None, selected = True,
      inputSchema = \<lparr>schema_type = ''object'',
        properties = [(''q'', \<lparr>p_type = ''string'', p_description = ''q'', p_enum = None,
                                p_default = None\<rparr>)],
        required = []\<rparr>,
      sourceMapping = \<lparr>sm_componentName = ''SearchPage'',
        sm_triggerElement = Some (makeElement\<lparr>label := Some ''Search''\<rparr>),
        sm_inputElements = [makeElement\<lparr>tag := ''input'', el_name := Some ''q''\<rparr>],
        sm_handler = Some (makeHandler\<lparr>h_name := ''handleSearch'', event := ''onSubmit''\<rparr>)\<rparr>\<rparr>"

definition reviewedTool :: ToolProposal where
  "reviewedTool =
     searchTool\<lparr>tp_index := 4, description := ''Run a search'', tp_risk := Caution,
       selected := False,
       sourceMapping := \<lparr>sm_componentName = ''SearchPage'',
         sm_triggerElement = Some (makeElement\<lparr>label := Some ''Search'',
           attributes := [''class'' \<mapsto> ''primary'']\<rparr>),
         sm_inputElements = [makeElement\<lparr>tag := ''input'', el_name := Some ''q'',
           attributes := [''class'' \<mapsto> ''wide'']\<rparr>],
         sm_handler = Some (makeHandler\<lparr>h_name := ''handleSearch'', event := ''onSubmit'',
           body := Some ''run()''\<rparr>)\<rparr>\<rparr>"

definition freshWorld :: World where
  "freshWorld = \<lparr>cacheFile = Absent, writable = True, inMemoryCache = JNull\<rparr>"

section \<open>Verified properties\<close>

subsection \<open>Substring search and joining\<close>

lemma startsWith_iff: "startsWith s p \<longleftrightarrow> (\<exists>b. s = p @ b)"
  by (induction s p rule: startsWith.induct) auto

lemma str_includes_iff: "str_includes s p \<longleftrightarrow> (\<exists>a b. s = a @ p @ b)"
proof (induction s)
  case Nil
  then show ?case by simp
next
  case (Cons c cs)
  have "(\<exists>a b. c # cs = a @ p @ b) \<longleftrightarrow> (\<exists>b. c # cs = p @ b) \<or> (\<exists>a b. cs = a @ p @ b)"
  proof
    assume "\<exists>a b. c # cs = a @ p @ b"
    then obtain a b where ab: "c # cs = a @ p @ b" by blast
    show "(\<exists>b. c # cs = p @ b) \<or> (\<exists>a b. cs = a @ p @ b)"
    proof (cases a)
      case Nil
      with ab show ?thesis by auto
    next
      case (Cons x a')
      with ab have "cs = a' @ p @ b" by simp
      then show ?thesis by blast
    qed
  next
    assume "(\<exists>b. c # cs = p @ b) \<or> (\<exists>a b. cs = a @ p @ b)"
    then show "\<exists>a b. c # cs = a @ p @ b"
    proof
      assume "\<exists>b. c # cs = p @ b"
      then obtain b where "c # cs = [] @ p @ b" by auto
      then show ?thesis by blast
    next
      assume "\<exists>a b. cs = a @ p @ b"
      then obtain a b where "cs = a @ p @ b" by blast
      then have "c # cs = (c # a) @ p @ b" by simp
      then show ?thesis by blast
    qed
  qed
  with Cons show ?case by (simp add: startsWith_iff)
qed

lemma str_includes_embed: "str_includes s p \<Longrightarrow> str_includes (a @ s @ b) p"
proof -
  assume "str_includes s p"
  then obtain x y where "s = x @ p @ y" by (auto simp: str_includes_iff)
  then have "a @ s @ b = (a @ x) @ p @ (y @ b)" by simp
  then show ?thesis unfolding str_includes_iff by blast
qed

lemma join_member: "x \<in> set xs \<Longrightarrow> \<exists>a b. join sep xs = a @ x @ b"
proof (induction sep xs rule: join.induct)
  case (1 sep)
  then show ?case by simp
next
  case (2 sep y)
  then have "join sep [y] = [] @ x @ []" by simp
  then show ?case by blast
next
  case (3 sep y z zs)
  show ?case
  proof (cases "x = y")
    case True
    then have "join sep (y # z # zs) = [] @ x @ (sep @ join sep (z # zs))" by simp
    then show ?thesis by blast
  next
    case False
    with 3 obtain a b where "join sep (z # zs) = a @ x @ b" by auto
    then have "join sep (y # z # zs) = (y @ sep @ a) @ x @ b" by simp
    then show ?thesis by blast
  qed
qed

lemma join_includes: "x \<in> set xs \<Longrightarrow> str_includes x p \<Longrightarrow> str_includes (join sep xs) p"
proof -
  assume "x \<in> set xs" and p: "str_includes x p"
  then obtain a b where "join sep xs = a @ x @ b" using join_member by blast
  with p show ?thesis by (simp add: str_includes_embed)
qed

lemma find_list_ex: "find P xs = None \<longleftrightarrow> \<not> list_ex P xs"
  by (auto simp: find_None_iff list_ex_iff)

lemma find_Some_list_ex: "find P xs = Some x \<Longrightarrow> list_ex P xs"
  by (auto simp: find_Some_iff list_ex_iff)

lemma httpMethods_recorded: "httpMethods h = map (\<lambda>c. toUpperCase (http_method c)) (recordedCalls h)"
  by (simp add: httpMethods_def recordedCalls_def split: option.splits)

lemma member_map_list_ex: "y \<in> set (map f xs) \<longleftrightarrow> list_ex (\<lambda>c. f c = y) xs"
  by (induction xs) auto

lemma list_ex_map: "list_ex P (map f xs) \<longleftrightarrow> list_ex (\<lambda>c. P (f c)) xs"
  by (induction xs) auto

lemma DELETE_recorded:
  "''DELETE'' \<in> set (httpMethods h) \<longleftrightarrow>
   list_ex (\<lambda>c. toUpperCase (http_method c) = ''DELETE'') (recordedCalls h)"
  unfolding httpMethods_recorded by (rule member_map_list_ex)

lemma mutation_recorded:
  "list_ex (\<lambda>m. m \<in> set [''POST'', ''PUT'', ''PATCH'']) (httpMethods h) \<longleftrightarrow>
   list_ex (\<lambda>c. toUpperCase (http_method c) \<in> set [''POST'', ''PUT'', ''PATCH'']) (recordedCalls h)"
  unfolding httpMethods_recorded by (rule list_ex_map)

lemma risk_cascade:
  "risk (classifyRisk t h) =
     (if list_ex (str_includes (allText t h)) EXCLUDED_PATTERNS then Excluded
      else if list_ex (str_includes (allText t h)) DESTRUCTIVE_KEYWORDS
              \<or> list_ex (\<lambda>c. toUpperCase (http_method c) = ''DELETE'') (recordedCalls h)
        then Destructive
      else if list_ex (str_includes (allText t h)) CAUTION_KEYWORDS
              \<or> list_ex (\<lambda>c. toUpperCase (http_method c) \<in> set [''POST'', ''PUT'', ''PATCH''])
                    (recordedCalls h)
        then Caution
      else Safe)"
proof -
  let ?E = "find (str_includes (allText t h)) EXCLUDED_PATTERNS"
  let ?D = "find (str_includes (allText t h)) DESTRUCTIVE_KEYWORDS"
  let ?C = "find (str_includes (allText t h)) CAUTION_KEYWORDS"
  have E: "list_ex (str_includes (allText t h)) EXCLUDED_PATTERNS \<longleftrightarrow> ?E \<noteq> None"
   and D: "list_ex (str_includes (allText t h)) DESTRUCTIVE_KEYWORDS \<longleftrightarrow> ?D \<noteq> None"
   and C: "list_ex (str_includes (allText t h)) CAUTION_KEYWORDS \<longleftrightarrow> ?C \<noteq> None"
    by (simp_all add: find_list_ex)
  show ?thesis
    unfolding E D C DELETE_recorded [symmetric] mutation_recorded [symmetric]
      classifyRisk_def Let_def
    by (cases ?E; cases ?D; cases ?C) simp_all
qed


lemma empty_not_destructive: "[] \<notin> set DESTRUCTIVE_KEYWORDS"
  by (simp add: DESTRUCTIVE_KEYWORDS_def)

lemma str_includes_nonempty: "str_includes s p \<Longrightarrow> p \<noteq> [] \<Longrightarrow> s \<noteq> []"
  by (cases s) auto

lemma signal_includes:
  assumes "str_includes (toLowerCase s) k" and "k \<noteq> []"
  shows "toLowerCase s \<in> set (signal (Some s))"
proof -
  from assms have "toLowerCase s \<noteq> []" by (rule str_includes_nonempty)
  then have "s \<noteq> []" by (auto simp: toLowerCase_def)
  then show ?thesis by simp
qed

lemma allText_includes:
  "x \<in> set (signals t h) \<Longrightarrow> str_includes x k \<Longrightarrow> str_includes (allText t h) k"
  unfolding allText_def by (rule join_includes)

subsection \<open>Risk cascade\<close>

text \<open>
  Claim C1. \<open>classifyRisk\<close> evaluates its rules in the fixed priority
  excluded, destructive, caution, safe, and the first match wins. For every optional
  trigger element and optional handler: if the joined lowercased text signals contain an
  excluded pattern the risk is excluded, whatever else matches; otherwise, if they contain a
  destructive keyword or a recorded API call has method DELETE (compared after
  \<open>toUpperCase\<close>, as the code does), the risk is destructive, even when caution keywords
  match too; otherwise a caution keyword or a POST, PUT or PATCH call gives caution;
  otherwise the risk is safe.
\<close>

theorem classifyRisk_cascade:
  "risk (classifyRisk t h) =
     (if list_ex (str_includes (allText t h)) EXCLUDED_PATTERNS then Excluded
      else if list_ex (str_includes (allText t h)) DESTRUCTIVE_KEYWORDS
              \<or> list_ex (\<lambda>c. toUpperCase (http_method c) = ''DELETE'') (recordedCalls h)
        then Destructive
      else if list_ex (str_includes (allText t h)) CAUTION_KEYWORDS
              \<or> list_ex (\<lambda>c. toUpperCase (http_method c) \<in> set [''POST'', ''PUT'', ''PATCH''])
                    (recordedCalls h)
        then Caution
      else Safe)"
  by (rule risk_cascade)

text \<open>The definitions a concrete classification unfolds.\<close>

lemmas eval_text = allText_def signals_def toLowerCase_def toUpperCase_def lower_char_def
  upper_char_def upper_letters_def lower_letters_def recordedCalls_def makeElement_def makeHandler_def
  EXCLUDED_PATTERNS_def DESTRUCTIVE_KEYWORDS_def CAUTION_KEYWORDS_def

text \<open>
  The cascade at the two labels of the specification (a label with both "delete" and
  "navigate" is excluded; "Delete and Save" is destructive, not caution), at a lower-case
  DELETE call under a caution label, at a POST call, and at a plain search button.
\<close>

theorem classifyRisk_cascade_witness:
  "risk (classifyRisk (Some (makeElement\<lparr>label := Some ''Delete and Navigate''\<rparr>)) None) = Excluded
   \<and> risk (classifyRisk (Some (makeElement\<lparr>label := Some ''Delete and Save''\<rparr>)) None) = Destructive
   \<and> risk (classifyRisk (Some (makeElement\<lparr>label := Some ''Save Changes''\<rparr>))
             (Some (makeHandler\<lparr>apiCalls := Some [\<lparr>http_method = ''delete'', url = ''/api/user''\<rparr>]\<rparr>)))
       = Destructive
   \<and> risk (classifyRisk (Some makeElement)
             (Some (makeHandler\<lparr>apiCalls := Some [\<lparr>http_method = ''POST'', url = ''/api/contact''\<rparr>]\<rparr>)))
       = Caution
   \<and> risk (classifyRisk (Some (makeElement\<lparr>label := Some ''Search''\<rparr>)) None) = Safe"
  unfolding classifyRisk_cascade by (simp add: eval_text)

text \<open>
  Claim C7. With the trigger element absent, a handler whose name or body contains
  (case-insensitively, as all matching is) a destructive keyword, and whose text signals
  contain no excluded pattern, is still classified destructive.
\<close>

theorem classifyRisk_missing_trigger:
  assumes kw: "list_ex (\<lambda>k. str_includes (toLowerCase (h_name h)) k
                 \<or> (case body h of None \<Rightarrow> False | Some b \<Rightarrow> str_includes (toLowerCase b) k))
               DESTRUCTIVE_KEYWORDS"
    and nex: "\<not> list_ex (str_includes (allText None (Some h))) EXCLUDED_PATTERNS"
  shows "risk (classifyRisk None (Some h)) = Destructive"
proof -
  from kw obtain k where k: "k \<in> set DESTRUCTIVE_KEYWORDS"
    and hit: "str_includes (toLowerCase (h_name h)) k
              \<or> (case body h of None \<Rightarrow> False | Some b \<Rightarrow> str_includes (toLowerCase b) k)"
    unfolding list_ex_iff by blast
  from k have ne: "k \<noteq> []" using empty_not_destructive by metis
  have "str_includes (allText None (Some h)) k"
  proof (cases "str_includes (toLowerCase (h_name h)) k")
    case True
    with ne have "toLowerCase (h_name h) \<in> set (signals None (Some h))"
      by (simp add: signals_def signal_includes del: signal.simps)
    from this True show ?thesis by (rule allText_includes)
  next
    case False
    with hit obtain b where b: "body h = Some b" and inc: "str_includes (toLowerCase b) k"
      by (auto split: option.splits)
    with ne have "toLowerCase b \<in> set (signals None (Some h))"
      by (simp add: signals_def signal_includes del: signal.simps)
    from this inc show ?thesis by (rule allText_includes)
  qed
  with k have "list_ex (str_includes (allText None (Some h))) DESTRUCTIVE_KEYWORDS"
    unfolding list_ex_iff by blast
  with nex show ?thesis by (simp add: risk_cascade)
qed

text \<open>The test-suite's case: no element, a handler named \<open>handleReset\<close>.\<close>

theorem classifyRisk_missing_trigger_witness:
  "risk (classifyRisk None (Some (makeHandler\<lparr>h_name := ''handleReset''\<rparr>))) = Destructive"
  by (rule classifyRisk_missing_trigger) (simp_all add: eval_text)

subsection \<open>The loops of buildProposals\<close>

lemma addCandidate_skip:
  "risk (classifyRisk (triggerElement c) (handler c)) = Excluded \<Longrightarrow> addCandidate H F c acc = acc"
  by (simp add: addCandidate_def)

lemma addCandidate_push:
  assumes "risk (classifyRisk (triggerElement c) (handler c)) \<noteq> Excluded"
  shows "\<exists>p. addCandidate H F c acc = (fst acc @ [p], Suc (snd acc))
            \<and> addCandidate H F c ([], snd acc) = ([p], Suc (snd acc))"
  using assms by (simp add: addCandidate_def Let_def)

lemma pushed_fields:
  assumes "addCandidate H F c ([], i) = ([p], j)"
  shows "tp_index p = i"
    and "tp_risk p = risk (classifyRisk (triggerElement c) (handler c))"
    and "tp_risk p \<noteq> Excluded"
    and "tp_id p = generateToolId H c"
    and "isStable p = Some (st_isStable (assessStability F c))"
    and "unstableReason p = st_unstableReason (assessStability F c)"
    and "selected p = (tp_risk p \<noteq> Destructive \<and> isStable p \<noteq> Some False)"
    and "sm_inputElements (sourceMapping p) = inputElements c"
    and "sm_triggerElement (sourceMapping p) = triggerElement c"
proof -
  have ne: "risk (classifyRisk (triggerElement c) (handler c)) \<noteq> Excluded"
    using assms by (auto simp: addCandidate_def)
  with assms have p: "p = \<lparr>tp_index = i,
                   tp_id = generateToolId H c,
                   tp_name = generateToolName c,
                   description = generateDescription c,
                   tp_risk = risk (classifyRisk (triggerElement c) (handler c)),
                   riskReason = Some (reason (classifyRisk (triggerElement c) (handler c))),
                   isStable = Some (st_isStable (assessStability F c)),
                   unstableReason = st_unstableReason (assessStability F c),
                   selected = (risk (classifyRisk (triggerElement c) (handler c)) \<noteq> Destructive
                       \<and> Some (st_isStable (assessStability F c)) \<noteq> Some False),
                   inputSchema = buildSchema c,
                   sourceMapping =
                     \<lparr>sm_componentName = componentName c,
                      sm_triggerElement = triggerElement c,
                      sm_inputElements = inputElements c,
                      sm_handler = handler c\<rparr>\<rparr>"
    by (simp add: addCandidate_def Let_def)
  show "tp_index p = i" by (simp add: p)
  show "tp_risk p = risk (classifyRisk (triggerElement c) (handler c))" by (simp add: p)
  show "tp_risk p \<noteq> Excluded" using ne by (simp add: p)
  show "tp_id p = generateToolId H c" by (simp add: p)
  show "isStable p = Some (st_isStable (assessStability F c))" by (simp add: p)
  show "unstableReason p = st_unstableReason (assessStability F c)" by (simp add: p)
  show "selected p = (tp_risk p \<noteq> Destructive \<and> isStable p \<noteq> Some False)" by (simp add: p)
  show "sm_inputElements (sourceMapping p) = inputElements c" by (simp add: p)
  show "sm_triggerElement (sourceMapping p) = triggerElement c" by (simp add: p)
qed

text \<open>The loop invariant.\<close>

lemma fold_invariant:
  assumes "P s" and "\<And>x s. x \<in> set xs \<Longrightarrow> P s \<Longrightarrow> P (f x s)"
  shows "P (fold f xs s)"
  using assms by (induction xs arbitrary: s) auto

lemma loopInv_step:
  assumes inv: "loopInv H F a acc" and comp: "component \<in> set (components a)"
    and c: "c \<in> set (groupIntoToolCandidates component)"
  shows "loopInv H F a (addCandidate H F c acc)"
proof (cases "risk (classifyRisk (triggerElement c) (handler c)) = Excluded")
  case True
  with inv show ?thesis by (simp add: addCandidate_skip)
next
  case False
  then obtain p where step: "addCandidate H F c acc = (fst acc @ [p], Suc (snd acc))"
    and single: "addCandidate H F c ([], snd acc) = ([p], Suc (snd acc))"
    using addCandidate_push by blast
  from single have idx: "tp_index p = snd acc" by (rule pushed_fields)
  with single comp c have "fromCandidate H F a p"
    unfolding fromCandidate_def by auto
  with inv idx show ?thesis
    unfolding loopInv_def step by auto
qed

lemma loopInv_buildProposals:
  "loopInv H F a (fold (\<lambda>component. fold (addCandidate H F) (groupIntoToolCandidates component))
            (components a) ([], 1))"
proof (rule fold_invariant)
  show "loopInv H F a ([], 1)" by (simp add: loopInv_def)
next
  fix component acc
  assume comp: "component \<in> set (components a)" and inv: "loopInv H F a acc"
  show "loopInv H F a (fold (addCandidate H F) (groupIntoToolCandidates component) acc)"
    using inv
  proof (rule fold_invariant)
    fix c acc'
    assume "c \<in> set (groupIntoToolCandidates component)" and "loopInv H F a acc'"
    with comp show "loopInv H F a (addCandidate H F c acc')" by (simp add: loopInv_step)
  qed
qed

lemma buildProposals_indices:
  "map tp_index (buildProposals H F a) = [1..<Suc (length (buildProposals H F a))]"
  using loopInv_buildProposals [of H F a] unfolding loopInv_def buildProposals_def by auto

lemma buildProposals_origin:
  assumes "p \<in> set (buildProposals H F a)"
  obtains component c where "component \<in> set (components a)"
    and "c \<in> set (groupIntoToolCandidates component)"
    and "addCandidate H F c ([], tp_index p) = ([p], Suc (tp_index p))"
  using loopInv_buildProposals [of H F a] assms
  unfolding loopInv_def buildProposals_def fromCandidate_def by blast

subsection \<open>Stable identity\<close>

lemma lower_bar: "lower_char (CHR ''|'') = CHR ''|''"
  by (simp add: lower_char_def upper_letters_def lower_letters_def)

lemma toLowerCase_join: "toLowerCase (join sep xs) = join (toLowerCase sep) (map toLowerCase xs)"
  by (induction sep xs rule: join.induct) (simp_all add: toLowerCase_def)

lemma raw_lowered:
  "toLowerCase (join ''|'' (idParts c)) = join ''|'' (map toLowerCase (idParts c))"
  by (simp add: toLowerCase_join) (simp add: toLowerCase_def lower_bar)

lemma candidateTypeName_lower: "toLowerCase (candidateTypeName t) = candidateTypeName t"
  by (cases t) (simp_all add: toLowerCase_def lower_char_def upper_letters_def lower_letters_def)

lemma lowered_parts:
  "map toLowerCase (idParts c) =
     [toLowerCase (componentName c), candidateTypeName (cand_type c)]
     @ (case map_option (\<lambda>trg. (toLowerCase (tag trg), toLowerCase (triggerLabel trg),
                                 toLowerCase (triggerNameAttribute trg))) (triggerElement c) of
          Some (t, l, n) \<Rightarrow> [t, l, n] | None \<Rightarrow> [])
     @ concat (map (\<lambda>(f, l, r). [f, l, r])
         (map (\<lambda>el. (toLowerCase (fieldIdentifier el), toLowerCase (fieldLabel el),
                      toLowerCase (fieldRole el))) (inputElements c)))"
  by (simp add: idParts_def candidateTypeName_lower map_concat comp_def split: option.splits)

text \<open>
  Claim C2. The tool id is a function of the candidate's semantic fields only: two
  candidates that agree, after lowercasing, on the component name, the candidate type, the
  trigger's tag, label and \<open>name\<close> attribute (and on whether there is a trigger), and on
  the identifier, label and role of every input in order, get the same id, whatever their
  other attributes, validation markers, parent forms or selector data are.
\<close>

theorem generateToolId_semantic:
  assumes "toLowerCase (componentName c1) = toLowerCase (componentName c2)"
    and "cand_type c1 = cand_type c2"
    and "map_option (\<lambda>trg. (toLowerCase (tag trg), toLowerCase (triggerLabel trg),
                             toLowerCase (triggerNameAttribute trg))) (triggerElement c1)
         = map_option (\<lambda>trg. (toLowerCase (tag trg), toLowerCase (triggerLabel trg),
                             toLowerCase (triggerNameAttribute trg))) (triggerElement c2)"
    and "map (\<lambda>el. (toLowerCase (fieldIdentifier el), toLowerCase (fieldLabel el),
                     toLowerCase (fieldRole el))) (inputElements c1)
         = map (\<lambda>el. (toLowerCase (fieldIdentifier el), toLowerCase (fieldLabel el),
                     toLowerCase (fieldRole el))) (inputElements c2)"
  shows "generateToolId sha256hex c1 = generateToolId sha256hex c2"
proof -
  have "map toLowerCase (idParts c1) = map toLowerCase (idParts c2)"
    unfolding lowered_parts using assms by simp
  then show ?thesis
    by (simp add: generateToolId_def raw_lowered)
qed

subsection \<open>Stability assessment\<close>












text \<open>
  Claim C5. No proposal returned by \<open>buildProposals\<close> has risk excluded, and the indices
  of the returned proposals are 1, 2, ..., n in output order.
\<close>

theorem no_excluded_proposals:
  "list_all (\<lambda>p. tp_risk p \<noteq> Excluded) (buildProposals sha256hex toFixed1 analysis)
   \<and> map tp_index (buildProposals sha256hex toFixed1 analysis)
       = [1..<Suc (length (buildProposals sha256hex toFixed1 analysis))]"
proof -
  have "tp_risk p \<noteq> Excluded" if "p \<in> set (buildProposals sha256hex toFixed1 analysis)" for p
  proof -
    from that obtain component c where
      "addCandidate sha256hex toFixed1 c ([], tp_index p) = ([p], Suc (tp_index p))"
      by (rule buildProposals_origin)
    then show ?thesis by (rule pushed_fields)
  qed
  then show ?thesis by (simp add: list_all_iff buildProposals_indices)
qed

text \<open>
  Claim C6. Every proposal of \<open>buildProposals\<close> is selected exactly when its risk is not
  destructive and it is not marked unstable; the stability flag is always set.
\<close>

theorem default_selection:
  "list_all (\<lambda>p. selected p = (tp_risk p \<noteq> Destructive \<and> isStable p \<noteq> Some False)
                \<and> isStable p \<noteq> None)
     (buildProposals sha256hex toFixed1 analysis)"
proof -
  have "selected p = (tp_risk p \<noteq> Destructive \<and> isStable p \<noteq> Some False) \<and> isStable p \<noteq> None"
    if "p \<in> set (buildProposals sha256hex toFixed1 analysis)" for p
  proof -
    from that obtain component c where
      pushed: "addCandidate sha256hex toFixed1 c ([], tp_index p) = ([p], Suc (tp_index p))"
      by (rule buildProposals_origin)
    show ?thesis using pushed_fields(7) [OF pushed] pushed_fields(5) [OF pushed] by simp
  qed
  then show ?thesis unfolding list_all_iff by blast
qed

subsection \<open>Selector synthesis\<close>

lemma sortByScore_length: "length (sortByScore ss) = length ss"
  by (simp add: sortByScore_def)

lemma sortByScore_set: "set (sortByScore ss) = set ss"
  by (simp add: sortByScore_def)

lemma sortByScore_nonempty: "sortByScore (ss @ [s]) \<noteq> []"
proof
  assume "sortByScore (ss @ [s]) = []"
  then have "length (sortByScore (ss @ [s])) = 0" by simp
  then show False by (simp add: sortByScore_length)
qed

lemma synthesize_nonempty: "synthesizeStrategies p m \<noteq> []"
  unfolding synthesizeStrategies_def append_assoc [symmetric] by (rule sortByScore_nonempty)

lemma fallback_nonempty: "fallbackToASTStrategies el \<noteq> []"
  unfolding fallbackToASTStrategies_def append_assoc [symmetric] by (rule sortByScore_nonempty)

lemma fallback_bare_tag:
  "\<lparr>strategy = Css, sel_value = tag el, score = 0.1\<rparr> \<in> set (fallbackToASTStrategies el)"
  unfolding fallbackToASTStrategies_def sortByScore_set by simp

lemma best_score_bound:
  assumes "\<forall>p \<in> set ps. calculateMatchScore el p \<le> b" and "snd best \<le> b"
  shows "snd (fold (betterMatch el) ps best) \<le> b"
  using assms
proof (induction ps arbitrary: best)
  case Nil
  then show ?case by simp
next
  case (Cons p ps)
  have "snd (betterMatch el p best) \<le> b"
    using Cons.prems by (simp add: betterMatch_def Let_def)
  moreover have "\<forall>q \<in> set ps. calculateMatchScore el q \<le> b" using Cons.prems by simp
  ultimately show ?case using Cons.IH by simp
qed

lemma matchElement_weak:
  assumes "\<forall>p \<in> set ps. calculateMatchScore el p \<le> 0.3"
  shows "matchElement ps el = el\<lparr>selectorFallback := Some (fallbackToASTStrategies el)\<rparr>"
proof -
  obtain m b where mb: "fold (betterMatch el) ps (None, 0) = (m, b)" by (cases "fold (betterMatch el) ps (None, 0)")
  have "snd (fold (betterMatch el) ps (None, 0)) \<le> 0.3"
    using assms by (rule best_score_bound) simp
  with mb have "\<not> b > 0.3" by simp
  with mb show ?thesis
    by (cases m) (simp_all add: matchElement_def)
qed

lemma matchElement_nonempty:
  "\<exists>ss. selectorFallback (matchElement ps el) = Some ss \<and> ss \<noteq> []"
proof -
  obtain m b where mb: "fold (betterMatch el) ps (None, 0) = (m, b)" by (cases "fold (betterMatch el) ps (None, 0)")
  then show ?thesis
    by (cases m) (simp_all add: matchElement_def synthesize_nonempty fallback_nonempty)
qed

text \<open>
  Claim C3. After \<open>matchElementsToProbe\<close>, every static element has a non-empty
  selector-fallback list, for every list of probe elements. With no probe element at all,
  and more generally whenever no probe element scores above 0.3, the element receives the
  AST-derived list, and that list always contains the bare-tag CSS strategy.
\<close>

theorem selector_degradation:
  "length (matchElementsToProbe staticElements probeElements) = length staticElements
   \<and> list_all (\<lambda>el. case selectorFallback el of None \<Rightarrow> False | Some ss \<Rightarrow> ss \<noteq> [])
       (matchElementsToProbe staticElements probeElements)
   \<and> matchElementsToProbe staticElements []
       = map (\<lambda>el. el\<lparr>selectorFallback := Some (fallbackToASTStrategies el)\<rparr>) staticElements
   \<and> (\<forall>el \<in> set staticElements.
         (\<forall>p \<in> set probeElements. calculateMatchScore el p \<le> 0.3) \<longrightarrow>
         matchElement probeElements el = el\<lparr>selectorFallback := Some (fallbackToASTStrategies el)\<rparr>)
   \<and> (\<forall>el :: UIElement.
         list_ex (\<lambda>s. strategy s = Css \<and> sel_value s = tag el) (fallbackToASTStrategies el))"
proof (intro conjI)
  show "length (matchElementsToProbe staticElements probeElements) = length staticElements"
    by (simp add: matchElementsToProbe_def)
  show "list_all (\<lambda>el. case selectorFallback el of None \<Rightarrow> False | Some ss \<Rightarrow> ss \<noteq> [])
       (matchElementsToProbe staticElements probeElements)"
  proof -
    have "case selectorFallback (matchElement probeElements el) of None \<Rightarrow> False | Some ss \<Rightarrow> ss \<noteq> []"
      for el :: UIElement
      using matchElement_nonempty [of probeElements el] by auto
    then show ?thesis
      by (simp add: list_all_iff matchElementsToProbe_def)
  qed
  show "matchElementsToProbe staticElements []
       = map (\<lambda>el. el\<lparr>selectorFallback := Some (fallbackToASTStrategies el)\<rparr>) staticElements"
    by (simp add: matchElementsToProbe_def matchElement_def)
  show "\<forall>el \<in> set staticElements.
         (\<forall>p \<in> set probeElements. calculateMatchScore el p \<le> 0.3) \<longrightarrow>
         matchElement probeElements el = el\<lparr>selectorFallback := Some (fallbackToASTStrategies el)\<rparr>"
    using matchElement_weak by blast
  show "\<forall>el :: UIElement.
         list_ex (\<lambda>s. strategy s = Css \<and> sel_value s = tag el) (fallbackToASTStrategies el)"
  proof
    fix el :: UIElement
    have "strategy \<lparr>strategy = Css, sel_value = tag el, score = 0.1\<rparr> = Css
        \<and> sel_value \<lparr>strategy = Css, sel_value = tag el, score = 0.1\<rparr> = tag el"
      by simp
    with fallback_bare_tag [of el]
    show "list_ex (\<lambda>s. strategy s = Css \<and> sel_value s = tag el) (fallbackToASTStrategies el)"
      unfolding list_ex_iff by blast
  qed
qed

subsection \<open>Incremental cache\<close>

lemma map_of_assign: "map_of (assign k v kvs) k = Some v"
  by (induction kvs) auto

lemma setProp_ok:
  assumes "setProp c k u = Inr c'"
  shows "truthy c' \<and> getProp c' k = Inr u"
  using assms by (cases c) (auto simp: map_of_assign)

lemma loadCache_truthy: "truthy (inMemoryCache w) \<Longrightarrow> loadCache w = (inMemoryCache w, w)"
  by (simp add: loadCache_def)

lemma surface_equal:
  assumes "sm_componentName (sourceMapping t') = sm_componentName (sourceMapping t)"
    and "map (\<lambda>el. (tag el, el_name el, inputType el, label el, stateBinding el \<noteq> None))
           (sm_inputElements (sourceMapping t'))
         = map (\<lambda>el. (tag el, el_name el, inputType el, label el, stateBinding el \<noteq> None))
           (sm_inputElements (sourceMapping t))"
    and "map_option (\<lambda>trg. (tag trg, el_name trg, label trg)) (sm_triggerElement (sourceMapping t'))
         = map_option (\<lambda>trg. (tag trg, el_name trg, label trg)) (sm_triggerElement (sourceMapping t))"
    and "map_option (\<lambda>h. (h_name h, event h)) (sm_handler (sourceMapping t'))
         = map_option (\<lambda>h. (h_name h, event h)) (sm_handler (sourceMapping t))"
    and "inputSchema t' = inputSchema t"
  shows "surfaceSignature t' = surfaceSignature t"
proof -
  have e: "map (\<lambda>el. \<lparr>is_t = tag el, is_n = el_name el, is_i = inputType el, is_l = label el,
                          is_s = (stateBinding el \<noteq> None)\<rparr>) xs
        = map (\<lambda>(a, b, c, d, e). \<lparr>is_t = a, is_n = b, is_i = c, is_l = d, is_s = e\<rparr>)
            (map (\<lambda>el. (tag el, el_name el, inputType el, label el, stateBinding el \<noteq> None)) xs)"
    for xs :: "UIElement list"
    by simp
  have t: "map_option (\<lambda>trg. \<lparr>ts_t = tag trg, ts_n = el_name trg, ts_l = label trg\<rparr>) x
        = map_option (\<lambda>(a, b, c). \<lparr>ts_t = a, ts_n = b, ts_l = c\<rparr>)
            (map_option (\<lambda>trg. (tag trg, el_name trg, label trg)) x)"
    for x :: "UIElement option"
    by (cases x) simp_all
  have h: "map_option (\<lambda>h. \<lparr>hs_n = h_name h, hs_ev = event h\<rparr>) x
        = map_option (\<lambda>(a, b). \<lparr>hs_n = a, hs_ev = b\<rparr>) (map_option (\<lambda>h. (h_name h, event h)) x)"
    for x :: "EventHandler option"
    by (cases x) simp_all
  show ?thesis
    unfolding surfaceSignature_def e t h using assms by simp
qed

text \<open>
  Claim C10. Cache round trip modulo the interactive surface: once
  \<open>setCachedHandler(t, b)\<close> has returned, \<open>getCachedHandler(t')\<close> returns exactly \<open>b\<close>
  for every tool \<open>t'\<close> with the same component name, the same tag, name, subtype, label and
  presence of a state binding for each input in order, the same trigger tag, name and
  label, the same handler name and event, and the same input schema, whatever else
  differs between the two tools.
\<close>

theorem cache_round_trip:
  assumes "sm_componentName (sourceMapping t') = sm_componentName (sourceMapping t)"
    and "map (\<lambda>el. (tag el, el_name el, inputType el, label el, stateBinding el \<noteq> None))
           (sm_inputElements (sourceMapping t'))
         = map (\<lambda>el. (tag el, el_name el, inputType el, label el, stateBinding el \<noteq> None))
           (sm_inputElements (sourceMapping t))"
    and "map_option (\<lambda>trg. (tag trg, el_name trg, label trg)) (sm_triggerElement (sourceMapping t'))
         = map_option (\<lambda>trg. (tag trg, el_name trg, label trg)) (sm_triggerElement (sourceMapping t))"
    and "map_option (\<lambda>h. (h_name h, event h)) (sm_handler (sourceMapping t'))
         = map_option (\<lambda>h. (h_name h, event h)) (sm_handler (sourceMapping t))"
    and "inputSchema t' = inputSchema t"
    and returned: "fst (setCachedHandler sha256hex stringify now t b w) = None"
  shows "fst (getCachedHandler sha256hex stringify t'
                (snd (setCachedHandler sha256hex stringify now t b w))) = Inr (JStr b)"
proof -
  let ?k = "hashInteractiveSurface sha256hex stringify t"
  let ?entry = "JObj [(''handlerBody'', JStr b), (''timestamp'', JNum now)]"
  have key: "hashInteractiveSurface sha256hex stringify t' = ?k"
    using surface_equal [OF assms(1-5)] by (simp add: hashInteractiveSurface_def)
  obtain cache w1 where load: "loadCache w = (cache, w1)" by (cases "loadCache w")
  from returned load obtain cache' where set: "setProp cache ?k ?entry = Inr cache'"
    by (cases "setProp cache ?k ?entry") (auto simp: setCachedHandler_def)
  from setProp_ok [OF set] have tr: "truthy cache'" and get: "getProp cache' ?k = Inr ?entry"
    by simp_all
  from returned load set have wr: "writable w1"
    by (auto simp: setCachedHandler_def saveCache_def split: if_splits)
  with load set have after: "snd (setCachedHandler sha256hex stringify now t b w)
      = w1\<lparr>inMemoryCache := cache', cacheFile := Parsed (persisted cache')\<rparr>"
    by (simp add: setCachedHandler_def saveCache_def)
  have "loadCache (w1\<lparr>inMemoryCache := cache', cacheFile := Parsed (persisted cache')\<rparr>)
      = (cache', w1\<lparr>inMemoryCache := cache', cacheFile := Parsed (persisted cache')\<rparr>)"
    using tr by (simp add: loadCache_def)
  then show ?thesis
    unfolding after by (simp add: getCachedHandler_def key get)
qed

text \<open>
  Storing returns normally whenever the cache that is loaded is an object and the storage
  can be written.
\<close>

lemma setCachedHandler_returns:
  assumes "fst (loadCache w) = JObj kvs" and "writable w"
  shows "fst (setCachedHandler sha256hex stringify now t b w) = None"
proof -
  obtain cache w1 where load: "loadCache w = (cache, w1)" by (cases "loadCache w")
  with assms(1) have c: "cache = JObj kvs" by simp
  have "writable w1"
    using load assms(2) by (auto simp: loadCache_def split: if_splits CacheFile.splits)
  with load c show ?thesis
    by (simp add: setCachedHandler_def saveCache_def)
qed

text \<open>
  With the file absent, unreadable or not parsable, a fresh process finds an empty cache.
\<close>

lemma getCachedHandler_degrades:
  assumes "inMemoryCache w = JNull" and "cacheFile w \<in> {Absent, Unreadable, Malformed}"
  shows "fst (getCachedHandler sha256hex stringify tool w) = Inr JNull"
  using assms by (auto simp: getCachedHandler_def loadCache_def)

text \<open>
  Claim C9. \<open>getCachedHandler\<close> is claimed never to raise, whatever the state of the
  persisted cache. It does raise: when the cache file holds the JSON text \<open>null\<close>,
  \<open>JSON.parse\<close> succeeds, \<open>loadCache\<close> stores and returns \<open>null\<close>, and the lookup
  \<open>cache[hash]\<close> throws a TypeError to the caller, for every tool.
\<close>

theorem getCachedHandler_null_file:
  "fst (getCachedHandler sha256hex stringify tool
          \<lparr>cacheFile = Parsed JNull, writable = wr, inMemoryCache = JNull\<rparr>) = Inl TypeError"
  by (simp add: getCachedHandler_def loadCache_def)

subsection \<open>Form candidates\<close>













subsection \<open>The properties at concrete inputs\<close>

text \<open>The contact form before and after a cosmetic refactoring has one id.\<close>

theorem generateToolId_semantic_witness:
  "(\<forall>sha256hex. generateToolId sha256hex restyledCandidate = generateToolId sha256hex contactCandidate)
   \<and> inputElements restyledCandidate \<noteq> inputElements contactCandidate"
proof
  show "\<forall>sha256hex. generateToolId sha256hex restyledCandidate = generateToolId sha256hex contactCandidate"
  proof
    fix sha256hex
    show "generateToolId sha256hex restyledCandidate = generateToolId sha256hex contactCandidate"
      by (rule generateToolId_semantic)
         (simp_all add: restyledCandidate_def contactCandidate_def makeElement_def
            triggerLabel_def triggerNameAttribute_def fieldIdentifier_def fieldLabel_def
            fieldRole_def toLowerCase_def lower_char_def upper_letters_def lower_letters_def)
  qed
  show "inputElements restyledCandidate \<noteq> inputElements contactCandidate"
    by (simp add: restyledCandidate_def contactCandidate_def makeElement_def)
qed

text \<open>An input named \<open>email\<close>, with no probe element and with one that matches on nothing.\<close>

theorem selector_degradation_witness:
  "map selectorFallback (matchElementsToProbe [emailField] [])
     = [Some [\<lparr>strategy = Css, sel_value = ''input[name=\"email\"]'', score = 0.4\<rparr>,
              \<lparr>strategy = Css, sel_value = ''input'', score = 0.1\<rparr>]]
   \<and> map selectorFallback (matchElementsToProbe [emailField] [unrelatedProbe])
     = [Some [\<lparr>strategy = Css, sel_value = ''input[name=\"email\"]'', score = 0.4\<rparr>,
              \<lparr>strategy = Css, sel_value = ''input'', score = 0.1\<rparr>]]"
proof -
  have weak: "\<forall>p \<in> set [unrelatedProbe]. calculateMatchScore emailField p \<le> 0.3"
    by (simp add: calculateMatchScore_def sameTruthy_def emailField_def unrelatedProbe_def
        makeElement_def fieldLabel_def mapTagToRole_def toLowerCase_def)
  have fb: "fallbackToASTStrategies emailField
      = [\<lparr>strategy = Css, sel_value = ''input[name=\"email\"]'', score = 0.4\<rparr>,
         \<lparr>strategy = Css, sel_value = ''input'', score = 0.1\<rparr>]"
    by (simp add: fallbackToASTStrategies_def sortByScore_def emailField_def makeElement_def)
  from selector_degradation [of "[emailField]" "[unrelatedProbe]"] weak
  have "matchElement [unrelatedProbe] emailField
      = emailField\<lparr>selectorFallback := Some (fallbackToASTStrategies emailField)\<rparr>"
    by simp
  moreover from selector_degradation [of "[emailField]" "[unrelatedProbe]"]
  have "matchElementsToProbe [emailField] []
      = [emailField\<lparr>selectorFallback := Some (fallbackToASTStrategies emailField)\<rparr>]"
    by simp
  ultimately show ?thesis
    by (simp add: matchElementsToProbe_def fb)
qed


text \<open>Four buttons, the second excluded: three proposals, indexed 1, 2, 3.\<close>

theorem no_excluded_proposals_witness:
  "map tp_index (buildProposals (\<lambda>raw. []) (\<lambda>n. []) dashboardAnalysis) = [1, 2, 3]
   \<and> map tp_risk (buildProposals (\<lambda>raw. []) (\<lambda>n. []) dashboardAnalysis) = [Caution, Destructive, Safe]
   \<and> map (risk \<circ> (\<lambda>c. classifyRisk (triggerElement c) (handler c)))
        (concat (map groupIntoToolCandidates (components dashboardAnalysis)))
       = [Caution, Excluded, Destructive, Safe]"
proof -
  let ?ps = "buildProposals (\<lambda>raw. []) (\<lambda>n. []) dashboardAnalysis"
  have risks: "map tp_risk ?ps = [Caution, Destructive, Safe]" by code_simp
  then have "length ?ps = 3" using length_map [of tp_risk ?ps] by simp
  with no_excluded_proposals [of "\<lambda>raw. []" "\<lambda>n. []" dashboardAnalysis]
  have "map tp_index ?ps = [1..<Suc 3]" by simp
  also have "\<dots> = [1, 2, 3]" by code_simp
  finally have idx: "map tp_index ?ps = [1, 2, 3]" .
  have "map (risk \<circ> (\<lambda>c. classifyRisk (triggerElement c) (handler c)))
        (concat (map groupIntoToolCandidates (components dashboardAnalysis)))
       = [Caution, Excluded, Destructive, Safe]"
    by code_simp
  with idx risks show ?thesis by simp
qed

text \<open>Save is selected; Delete (destructive) and Refresh (unstable) are not.\<close>

theorem default_selection_witness:
  "map tp_risk (buildProposals (\<lambda>raw. []) (\<lambda>n. []) dashboardAnalysis) = [Caution, Destructive, Safe]
   \<and> map isStable (buildProposals (\<lambda>raw. []) (\<lambda>n. []) dashboardAnalysis)
       = [Some True, Some True, Some False]
   \<and> map selected (buildProposals (\<lambda>raw. []) (\<lambda>n. []) dashboardAnalysis) = [True, False, False]"
proof -
  let ?ps = "buildProposals (\<lambda>raw. []) (\<lambda>n. []) dashboardAnalysis"
  have risks: "map tp_risk ?ps = [Caution, Destructive, Safe]" by code_simp
  have stab: "map isStable ?ps = [Some True, Some True, Some False]" by code_simp
  from risks obtain p1 p2 p3 where ps: "?ps = [p1, p2, p3]"
    by (auto simp: map_eq_Cons_conv)
  from default_selection [of "\<lambda>raw. []" "\<lambda>n. []" dashboardAnalysis] risks stab
  have "map selected ?ps = [True, False, False]"
    unfolding ps by simp
  with risks stab show ?thesis by simp
qed


text \<open>A handler stored for a proposal in a fresh process is found for the reviewed proposal.\<close>

theorem cache_round_trip_witness:
  "(\<forall>sha256hex stringify.
      fst (getCachedHandler sha256hex stringify reviewedTool
             (snd (setCachedHandler sha256hex stringify 0 searchTool ''return 1;'' freshWorld)))
        = Inr (JStr ''return 1;''))
   \<and> reviewedTool \<noteq> searchTool"
proof
  show "\<forall>sha256hex stringify.
      fst (getCachedHandler sha256hex stringify reviewedTool
             (snd (setCachedHandler sha256hex stringify 0 searchTool ''return 1;'' freshWorld)))
        = Inr (JStr ''return 1;'')"
  proof (intro allI)
    fix sha256hex :: "string \<Rightarrow> string" and stringify :: "SurfaceSignature \<Rightarrow> string"
    show "fst (getCachedHandler sha256hex stringify reviewedTool
             (snd (setCachedHandler sha256hex stringify 0 searchTool ''return 1;'' freshWorld)))
        = Inr (JStr ''return 1;'')"
      by (rule cache_round_trip)
         (simp_all add: reviewedTool_def searchTool_def makeElement_def makeHandler_def
            freshWorld_def setCachedHandler_def loadCache_def saveCache_def)
  qed
  show "reviewedTool \<noteq> searchTool"
    by (simp add: reviewedTool_def searchTool_def)
qed

end
